theory Spec2Isabelle
  imports Main "HOL-Library.Sublist"
begin

section \<open>JavaScript values and the host\<close>

text \<open>
  The client code of the repository is TypeScript (the component source whose functions
  \<open>expandSearchQuery\<close>, \<open>isHomeGame\<close>, \<open>eventMatchesSearch\<close> and the \<open>filteredEvents\<close>
  callback are embedded below).

  A JavaScript string is a sequence of UTF-16 code units, here integers (a code unit
  is one of 0 to 65535).
  \<open>js\<close> writes the string of an ASCII literal.
\<close>

type_synonym jsString = "int list"

definition js :: "string \<Rightarrow> jsString" where
  "js s = map of_char s"

text \<open>The only exception the embedded code can raise is a \<open>TypeError\<close>.\<close>

datatype error = TypeError

text \<open>
  The events are read from a JSON document and never validated, so at run time a property
  of an event is \<open>undefined\<close> (key absent), \<open>null\<close>, or a value.
\<close>

datatype 'a field = Undefined | Null | Present 'a

text \<open>
  What the code takes from the JavaScript host and what is too large to spell out here
  is a component of the host, so that every statement about all hosts holds whatever
  these components are:
  \<^item> \<open>localTZA t isUTC\<close>, the offset of local time from UTC in milliseconds at the instant
    \<open>t\<close>, read as a UTC time value when \<open>isUTC\<close> holds and as a local one otherwise (it
    changes with daylight saving);
  \<^item> \<open>parseDate\<close>, the parser behind \<open>new Date(string)\<close>, with \<open>None\<close> for \<open>NaN\<close>; outside
    the ECMAScript date-time format its result is left to the implementation;
  \<^item> \<open>lowerUnicode\<close>, the result of \<open>String.prototype.toLowerCase\<close> on a string that holds
    a code unit outside ASCII (the Unicode case mapping).
\<close>

record host =
  localTZA :: "int \<Rightarrow> bool \<Rightarrow> int"
  parseDate :: "jsString \<Rightarrow> int option"
  lowerUnicode :: "jsString \<Rightarrow> jsString"

section \<open>String primitives\<close>

definition isAscii :: "int \<Rightarrow> bool" where
  "isAscii c = (0 \<le> c \<and> c < 128)"

definition asciiLower :: "int \<Rightarrow> int" where
  "asciiLower c = (if 65 \<le> c \<and> c \<le> 90 then c + 32 else c)"

text \<open>
  \<open>s.toLowerCase()\<close>: on a string of ASCII code units the letters A-Z are mapped to a-z
  and nothing else changes; any other string is mapped by the host.
\<close>

definition toLowerCase :: "host \<Rightarrow> jsString \<Rightarrow> jsString" where
  "toLowerCase h s = (if list_all isAscii s then map asciiLower s else lowerUnicode h s)"

text \<open>
  White space as \<open>trim\<close> and the regular expression class \<open>\s\<close> know it: TAB, LF, VT, FF,
  CR, SPACE, U+00A0, U+1680, U+2000 to U+200A, U+2028, U+2029, U+202F, U+205F, U+3000
  and U+FEFF.
\<close>

definition isSpace :: "int \<Rightarrow> bool" where
  "isSpace c =
     ((9 \<le> c \<and> c \<le> 13) \<or> c = 32 \<or> c = 160 \<or> c = 5760 \<or> (8192 \<le> c \<and> c \<le> 8202)
      \<or> c = 8232 \<or> c = 8233 \<or> c = 8239 \<or> c = 8287 \<or> c = 12288 \<or> c = 65279)"

text \<open>A word character of a regular expression without the \<open>u\<close> flag: \<open>[A-Za-z0-9_]\<close>.\<close>

definition isWordChar :: "int \<Rightarrow> bool" where
  "isWordChar c =
     ((48 \<le> c \<and> c \<le> 57) \<or> (65 \<le> c \<and> c \<le> 90) \<or> c = 95 \<or> (97 \<le> c \<and> c \<le> 122))"

text \<open>\<open>String.prototype.trim\<close>: white space is removed from both ends.\<close>

definition trim :: "jsString \<Rightarrow> jsString" where
  "trim s = rev (dropWhile isSpace (rev (dropWhile isSpace s)))"

text \<open>
  \<open>s.split(/\s+/)\<close>: the string is cut at every maximal run of white space. The first
  argument is the piece being collected, the second says whether the scan is inside a
  run of white space.
\<close>

fun splitWs :: "jsString \<Rightarrow> bool \<Rightarrow> jsString \<Rightarrow> jsString list" where
  "splitWs cur inWs [] = [cur]"
| "splitWs cur inWs (c # cs) =
     (if isSpace c then (if inWs then splitWs cur True cs else cur # splitWs [] True cs)
      else splitWs (cur @ [c]) False cs)"

definition split_ws :: "jsString \<Rightarrow> jsString list" where
  "split_ws s = splitWs [] False s"

text \<open>\<open>hay.includes(needle)\<close>: the needle occurs at some position of the haystack.\<close>

fun str_includes :: "jsString \<Rightarrow> jsString \<Rightarrow> bool" where
  "str_includes [] needle = (needle = [])"
| "str_includes (h # hs) needle = (prefix needle (h # hs) \<or> str_includes hs needle)"

text \<open>\<open>parts.join(' ')\<close> on strings.\<close>

fun join_sp :: "jsString list \<Rightarrow> jsString" where
  "join_sp [] = []"
| "join_sp [x] = x"
| "join_sp (x # y # ys) = x @ js '' '' @ join_sp (y # ys)"

text \<open>
  \<open>[...new Set(terms)]\<close>: the elements are added in order and an element already present
  is skipped, so the first occurrence of each element is the one kept.
\<close>

fun setAddAll :: "jsString list \<Rightarrow> jsString list \<Rightarrow> jsString list" where
  "setAddAll acc [] = acc"
| "setAddAll acc (x # xs) = setAddAll (if x \<in> set acc then acc else acc @ [x]) xs"

definition uniqueTerms :: "jsString list \<Rightarrow> jsString list" where
  "uniqueTerms terms = setAddAll [] terms"

section \<open>Synonym expansion\<close>

definition SEARCH_SYNONYMS :: "(jsString \<times> jsString list) list" where
  "SEARCH_SYNONYMS = map (\<lambda>(key, synonyms). (js key, map js synonyms))
   [(''ai'', [''artificial intelligence'', ''machine learning'', ''ml'', ''deep learning'', ''neural network'']),
    (''artificial intelligence'', [''ai'', ''machine learning'', ''ml'', ''deep learning'']),
    (''machine learning'', [''ml'', ''ai'', ''artificial intelligence'', ''deep learning'']),
    (''ml'', [''machine learning'', ''ai'', ''artificial intelligence'']),
    (''tech'', [''technology'', ''computer'', ''software'', ''engineering'', ''science & tech'']),
    (''technology'', [''tech'', ''computer'', ''software'', ''engineering'']),
    (''music'', [''concert'', ''performance'', ''jazz'', ''classical'', ''orchestra'', ''recital'']),
    (''concert'', [''music'', ''performance'', ''show'', ''live'']),
    (''sports'', [''athletics'', ''game'', ''match'', ''basketball'', ''football'', ''volleyball'']),
    (''basketball'', [''sports'', ''game'', ''hoops'', ''cal bears'']),
    (''football'', [''sports'', ''game'', ''cal bears'']),
    (''lecture'', [''talk'', ''presentation'', ''seminar'', ''speaker'', ''academic'']),
    (''talk'', [''lecture'', ''presentation'', ''seminar'', ''speaker'']),
    (''workshop'', [''class'', ''training'', ''hands-on'', ''session'']),
    (''art'', [''arts'', ''exhibition'', ''gallery'', ''museum'', ''visual'']),
    (''arts'', [''art'', ''exhibition'', ''gallery'', ''performance'', ''theater'', ''theatre'']),
    (''theater'', [''theatre'', ''play'', ''drama'', ''performance'', ''arts'']),
    (''theatre'', [''theater'', ''play'', ''drama'', ''performance'', ''arts'']),
    (''film'', [''movie'', ''cinema'', ''screening'']),
    (''movie'', [''film'', ''cinema'', ''screening'']),
    (''health'', [''wellness'', ''medical'', ''healthcare'', ''public health'']),
    (''wellness'', [''health'', ''mental health'', ''self-care'']),
    (''career'', [''job'', ''employment'', ''professional'', ''networking'', ''recruiting'']),
    (''job'', [''career'', ''employment'', ''hiring'', ''internship'']),
    (''diversity'', [''dei'', ''inclusion'', ''equity'', ''multicultural'']),
    (''dei'', [''diversity'', ''equity'', ''inclusion''])]"

text \<open>
  \<open>SEARCH_SYNONYMS\<close> is an object literal, so \<open>SEARCH_SYNONYMS[key]\<close> is a property read
  that falls back to \<open>Object.prototype\<close> when the object has no own property of that
  name. The inherited properties are functions, and \<open>__proto__\<close> is
  \<open>Object.prototype\<close> itself: all of them are truthy and none is iterable. The object is
  an association list of its own entries in insertion order; the keys of the literal are
  distinct and none is an array index, so this is also the order of \<open>Object.entries\<close>.
\<close>

definition Object_prototype_keys :: "jsString list" where
  "Object_prototype_keys = map js
   [''constructor'', ''__defineGetter__'', ''__defineSetter__'', ''hasOwnProperty'',
    ''__lookupGetter__'', ''__lookupSetter__'', ''isPrototypeOf'', ''propertyIsEnumerable'',
    ''toString'', ''valueOf'', ''__proto__'', ''toLocaleString'']"

datatype property = Own "jsString list" | Inherited | Missing

definition getProperty :: "(jsString \<times> jsString list) list \<Rightarrow> jsString \<Rightarrow> property" where
  "getProperty obj key =
     (case map_of obj key of
        Some v \<Rightarrow> Own v
      | None \<Rightarrow> if key \<in> set Object_prototype_keys then Inherited else Missing)"

text \<open>
  The \<open>forEach\<close> over \<open>Object.entries(SEARCH_SYNONYMS)\<close>: the own entries in insertion
  order, each pushing its synonyms when the key is one of the query words or the query.
\<close>

fun pushMatching :: "jsString list \<Rightarrow> jsString \<Rightarrow> (jsString \<times> jsString list) list \<Rightarrow> jsString list \<Rightarrow> jsString list" where
  "pushMatching queryWords normalized [] terms = terms"
| "pushMatching queryWords normalized ((key, synonyms) # rest) terms =
     pushMatching queryWords normalized rest
       (if key \<in> set queryWords \<or> key = normalized then terms @ synonyms else terms)"

text \<open>
  \<open>expandSearchQuery\<close> over a vocabulary. \<open>terms.push(...SEARCH_SYNONYMS[normalized])\<close>
  runs when the property read is truthy; spreading a value that is not iterable raises
  a \<open>TypeError\<close>.
\<close>

definition expandSearchQueryIn :: "(jsString \<times> jsString list) list \<Rightarrow> host \<Rightarrow> jsString \<Rightarrow> error + jsString list" where
  "expandSearchQueryIn vocabulary h query =
     (let normalized = trim (toLowerCase h query);
          terms = [normalized]
      in case getProperty vocabulary normalized of
           Inherited \<Rightarrow> Inl TypeError
         | Own synonyms \<Rightarrow>
             Inr (uniqueTerms (pushMatching (split_ws normalized) normalized vocabulary (terms @ synonyms)))
         | Missing \<Rightarrow>
             Inr (uniqueTerms (pushMatching (split_ws normalized) normalized vocabulary terms)))"

definition expandSearchQuery :: "host \<Rightarrow> jsString \<Rightarrow> error + jsString list" where
  "expandSearchQuery h query = expandSearchQueryIn SEARCH_SYNONYMS h query"

section \<open>Events\<close>

text \<open>
  \<open>CalEvent\<close> as it arrives at run time. The interface declares every property a string
  (\<open>tags\<close> a string array); the functions below guard some of the reads with \<open>?.\<close> and
  \<open>||\<close>, so absent properties are part of the model.
\<close>

record CalEvent =
  id_ :: "jsString field"
  title :: "jsString field"
  organizer :: "jsString field"
  date :: "jsString field"
  time :: "jsString field"
  location :: "jsString field"
  description :: "jsString field"
  tags :: "jsString list field"
  url :: "jsString field"

section \<open>Locality heuristic\<close>

definition BERKELEY_LOCATIONS :: "jsString list" where
  "BERKELEY_LOCATIONS = map js
   [''berkeley'', ''uc berkeley'', ''cal '', ''memorial stadium'', ''haas pavilion'',
    ''edwards stadium'', ''evans diamond'', ''hearst'', ''recreational sports facility'',
    ''rsf'', ''zellerbach'', ''wheeler'', ''dwinelle'', ''soda hall'', ''cory hall'',
    ''doe library'', ''moffitt'', ''bancroft'', ''sproul'', ''mlk student union'',
    ''california memorial'', ''greek theatre'', ''hearst greek'']"

text \<open>
  \<open>event.tags?.some(tag => tag.toLowerCase().includes('sport'))\<close>: with \<open>tags\<close> absent
  the optional chain yields \<open>undefined\<close>, which the following \<open>!\<close> treats as false.
\<close>

definition isSportsEvent :: "host \<Rightarrow> CalEvent \<Rightarrow> bool" where
  "isSportsEvent h event =
     (case tags event of
        Present ts \<Rightarrow> list_ex (\<lambda>tag. str_includes (toLowerCase h tag) (js ''sport'')) ts
      | _ \<Rightarrow> False)"

text \<open>
  \<open>event.location.toLowerCase()\<close> is an unguarded method call: on \<open>undefined\<close> or \<open>null\<close>
  it raises a \<open>TypeError\<close>.
\<close>

definition isHomeGame :: "host \<Rightarrow> CalEvent \<Rightarrow> error + bool" where
  "isHomeGame h event =
     (if \<not> isSportsEvent h event then Inr True
      else case location event of
             Present loc \<Rightarrow>
               Inr (list_ex (\<lambda>l. str_includes (toLowerCase h loc) l) BERKELEY_LOCATIONS)
           | _ \<Rightarrow> Inl TypeError)"

section \<open>Text match evaluator\<close>

definition WHOLE_WORD_ONLY :: "jsString list" where
  "WHOLE_WORD_ONLY = map js [''ai'', ''ml'', ''ar'', ''vr'', ''it'', ''cs'']"

text \<open>\<open>Array.prototype.join\<close> writes \<open>undefined\<close> and \<open>null\<close> elements as the empty string.\<close>

definition joinText :: "jsString field \<Rightarrow> jsString" where
  "joinText f = (case f of Present s \<Rightarrow> s | _ \<Rightarrow> [])"

definition searchableText :: "host \<Rightarrow> CalEvent \<Rightarrow> jsString" where
  "searchableText h event =
     toLowerCase h (join_sp ([joinText (title event), joinText (description event),
                              joinText (organizer event)]
                             @ (case tags event of Present ts \<Rightarrow> ts | _ \<Rightarrow> [])))"

text \<open>
  \<open>new RegExp(`\\b${term}\\b`, 'i').test(text)\<close> for a literal term of ASCII letters (the
  six members of \<open>WHOLE_WORD_ONLY\<close> are the only terms that reach it). \<open>\\b\<close> holds at a
  position when exactly one of the characters before and after it is a word character,
  the edges of the text counting as no word character. Under the \<open>i\<close> flag, without the
  \<open>u\<close> flag, a character of the text matches an ASCII letter of the pattern exactly when
  it is that letter in either case. \<open>matchAt term prevWord rest\<close> tries the match at the
  position in front of \<open>rest\<close>, \<open>prevWord\<close> telling whether the character before it is a
  word character; \<open>regexSearch\<close> tries every position from left to right.
\<close>

definition startsWithWord :: "jsString \<Rightarrow> bool" where
  "startsWithWord s = (case s of [] \<Rightarrow> False | c # _ \<Rightarrow> isWordChar c)"

definition matchAt :: "jsString \<Rightarrow> bool \<Rightarrow> jsString \<Rightarrow> bool" where
  "matchAt term prevWord rest =
     (let n = length term;
          matched = take n rest;
          lastWord = (if matched = [] then prevWord else isWordChar (last matched))
      in prevWord \<noteq> startsWithWord rest \<and> n \<le> length rest
         \<and> map asciiLower matched = map asciiLower term
         \<and> lastWord \<noteq> startsWithWord (drop n rest))"

fun regexSearch :: "jsString \<Rightarrow> bool \<Rightarrow> jsString \<Rightarrow> bool" where
  "regexSearch term prevWord [] = matchAt term prevWord []"
| "regexSearch term prevWord (c # cs) =
     (matchAt term prevWord (c # cs) \<or> regexSearch term (isWordChar c) cs)"

definition wordBoundaryTest :: "jsString \<Rightarrow> jsString \<Rightarrow> bool" where
  "wordBoundaryTest term text = regexSearch term False text"

definition termMatches :: "jsString \<Rightarrow> jsString \<Rightarrow> bool" where
  "termMatches text term =
     (if term \<in> set WHOLE_WORD_ONLY then wordBoundaryTest term text
      else str_includes text term)"

definition eventMatchesSearch :: "host \<Rightarrow> CalEvent \<Rightarrow> jsString list \<Rightarrow> bool" where
  "eventMatchesSearch h event searchTerms =
     list_ex (termMatches (searchableText h event)) searchTerms"

section \<open>Dates\<close>

text \<open>
  A \<open>Date\<close> holds a time value: milliseconds since 1970-01-01T00:00:00Z, or \<open>NaN\<close>
  (an invalid date), here \<^typ>\<open>int option\<close> with \<open>None\<close> for \<open>NaN\<close>. The operations follow
  the ECMAScript definitions: \<open>LocalTime(t) = t + LocalTZA(t, true)\<close> and
  \<open>UTC(t) = t - LocalTZA(t, false)\<close>. Time values stay far inside the range of a
  \<open>Date\<close>, so \<open>TimeClip\<close> is the identity.
\<close>

definition msPerDay :: int where
  "msPerDay = 86400000"

definition localTime :: "host \<Rightarrow> int \<Rightarrow> int" where
  "localTime h t = t + localTZA h t True"

definition utcTime :: "host \<Rightarrow> int \<Rightarrow> int" where
  "utcTime h t = t - localTZA h t False"

text \<open>Day number (days since 1970-01-01) to year, month (1-12), day of month, and back.\<close>

definition civilFromDays :: "int \<Rightarrow> int \<times> int \<times> int" where
  "civilFromDays z0 =
     (let z = z0 + 719468;
          era = z div 146097;
          doe = z - era * 146097;
          yoe = (doe - doe div 1460 + doe div 36524 - doe div 146096) div 365;
          doy = doe - (365 * yoe + yoe div 4 - yoe div 100);
          mp = (5 * doy + 2) div 153;
          d = doy - (153 * mp + 2) div 5 + 1;
          m = (if mp < 10 then mp + 3 else mp - 9);
          y = yoe + era * 400
      in (if m \<le> 2 then y + 1 else y, m, d))"

definition daysFromCivil :: "int \<Rightarrow> int \<Rightarrow> int \<Rightarrow> int" where
  "daysFromCivil y0 m d =
     (let y = (if m \<le> 2 then y0 - 1 else y0);
          era = y div 400;
          yoe = y - era * 400;
          doy = (153 * (if m > 2 then m - 3 else m + 9) + 2) div 5 + d - 1;
          doe = yoe * 365 + yoe div 4 - yoe div 100 + doy
      in era * 146097 + doe - 719468)"

definition localDay :: "host \<Rightarrow> int \<Rightarrow> int" where
  "localDay h t = localTime h t div msPerDay"

text \<open>\<open>d.setHours(0,0,0,0)\<close>: the start of \<open>d\<close>'s local calendar day.\<close>

definition setHoursZero :: "host \<Rightarrow> int \<Rightarrow> int" where
  "setHoursZero h t = utcTime h (localDay h t * msPerDay)"

text \<open>\<open>d.getDate()\<close>: the local day of the month.\<close>

definition getDate :: "host \<Rightarrow> int \<Rightarrow> int" where
  "getDate h t = (case civilFromDays (localDay h t) of (y, m, d) \<Rightarrow> d)"

text \<open>
  \<open>d.setDate(n)\<close>: day \<open>n\<close> of \<open>d\<close>'s local year and month (counting on into the
  following months when \<open>n\<close> is past the month's end), at \<open>d\<close>'s local time of day.
\<close>

definition setDate :: "host \<Rightarrow> int \<Rightarrow> int \<Rightarrow> int" where
  "setDate h t n =
     (case civilFromDays (localDay h t) of
        (y, m, d) \<Rightarrow>
          utcTime h ((daysFromCivil y m 1 + n - 1) * msPerDay + localTime h t mod msPerDay))"

text \<open>
  \<open>d.toDateString()\<close> prints the local weekday, month, day and year
  (\<open>"Mon Jun 10 2024"\<close>), or \<open>"Invalid Date"\<close>. The model keeps the four components.
\<close>

datatype dateString = InvalidDate | DateString int int int int

definition toDateString :: "host \<Rightarrow> int option \<Rightarrow> dateString" where
  "toDateString h tv =
     (case tv of
        None \<Rightarrow> InvalidDate
      | Some t \<Rightarrow>
          (case civilFromDays (localDay h t) of
             (y, m, d) \<Rightarrow> DateString ((localDay h t + 4) mod 7) m d y))"

text \<open>
  \<open>new Date(event.date)\<close>: a string is parsed, \<open>undefined\<close> gives an invalid date and
  \<open>null\<close> converts to the number 0.
\<close>

definition newDate :: "host \<Rightarrow> jsString field \<Rightarrow> int option" where
  "newDate h f = (case f of Present s \<Rightarrow> parseDate h s | Undefined \<Rightarrow> None | Null \<Rightarrow> Some 0)"

section \<open>Filter pipeline\<close>

datatype DateRange = Upcoming | Today | Week | Month | Weekend

record SearchFilters =
  dateRange :: DateRange
  category :: jsString
  searchQuery :: jsString

text \<open>
  The callback of \<open>allEvents.filter\<close> computes four constants in turn and returns their
  conjunction. Each constant is a function here, named as in the source. \<open>new Date()\<close> is
  the reference instant \<open>now\<close>.
\<close>

definition matchesCategory :: "host \<Rightarrow> SearchFilters \<Rightarrow> CalEvent \<Rightarrow> bool" where
  "matchesCategory h filters event =
     (category filters = js ''All''
      \<or> (case tags event of
            Present ts \<Rightarrow>
              list_ex (\<lambda>t. str_includes (toLowerCase h t) (toLowerCase h (category filters))) ts
          | _ \<Rightarrow> False)
      \<or> (case tags event of Present ts \<Rightarrow> category filters \<in> set ts | _ \<Rightarrow> False))"

definition matchesDate :: "host \<Rightarrow> int \<Rightarrow> SearchFilters \<Rightarrow> CalEvent \<Rightarrow> bool" where
  "matchesDate h now filters event =
     (let eventDate = newDate h (date event);
          today = setHoursZero h now
      in if dateRange filters = Today then
           toDateString h eventDate = toDateString h (Some today)
         else if dateRange filters = Week then
           (let nextWeek = setDate h now (getDate h today + 7)
            in case eventDate of
                 None \<Rightarrow> False
               | Some t \<Rightarrow> today \<le> t \<and> t \<le> nextWeek)
         else True)"

definition matchesSearch :: "host \<Rightarrow> SearchFilters \<Rightarrow> CalEvent \<Rightarrow> error + bool" where
  "matchesSearch h filters event =
     (let query = trim (searchQuery filters)
      in if query \<noteq> [] then
           (case expandSearchQuery h query of
              Inl e \<Rightarrow> Inl e
            | Inr expandedTerms \<Rightarrow> Inr (eventMatchesSearch h event expandedTerms))
         else Inr True)"

definition keepEvent :: "host \<Rightarrow> int \<Rightarrow> SearchFilters \<Rightarrow> CalEvent \<Rightarrow> error + bool" where
  "keepEvent h now filters event =
     (let c = matchesCategory h filters event;
          d = matchesDate h now filters event
      in case matchesSearch h filters event of
           Inl e \<Rightarrow> Inl e
         | Inr s \<Rightarrow>
             (case isHomeGame h event of
                Inl e \<Rightarrow> Inl e
              | Inr isLocalEvent \<Rightarrow> Inr (c \<and> d \<and> s \<and> isLocalEvent)))"

text \<open>
  \<open>Array.prototype.filter\<close>: the callback runs on the elements from left to right, and an
  exception it raises ends the whole call.
\<close>

fun filterE :: "('a \<Rightarrow> error + bool) \<Rightarrow> 'a list \<Rightarrow> error + 'a list" where
  "filterE p [] = Inr []"
| "filterE p (x # xs) =
     (case p x of
        Inl e \<Rightarrow> Inl e
      | Inr keep \<Rightarrow>
          (case filterE p xs of
             Inl e \<Rightarrow> Inl e
           | Inr kept \<Rightarrow> Inr (if keep then x # kept else kept)))"

definition filteredEvents :: "host \<Rightarrow> int \<Rightarrow> CalEvent list \<Rightarrow> SearchFilters \<Rightarrow> error + CalEvent list" where
  "filteredEvents h now allEvents filters = filterE (keepEvent h now filters) allEvents"

section \<open>Specification predicates and example data\<close>

text \<open>
  The properties below are stated with predicates that follow the wording of the
  specification rather than the code. Substring containment is \<^const>\<open>sublist\<close>. A
  whole-word occurrence of a term in a text is an occurrence of the term, letter case
  aside, with no word character directly before or after it.
\<close>

definition wholeWordOccurrence :: "jsString \<Rightarrow> jsString \<Rightarrow> bool" where
  "wholeWordOccurrence term text =
     (\<exists>before found after. text = before @ found @ after
        \<and> map asciiLower found = map asciiLower term
        \<and> (before = [] \<or> \<not> isWordChar (last before))
        \<and> (after = [] \<or> \<not> isWordChar (hd after)))"

text \<open>An event is tagged as sports when one of its tags, lowercased, contains "sport".\<close>

definition sportsTagged :: "host \<Rightarrow> CalEvent \<Rightarrow> bool" where
  "sportsTagged h event =
     (\<exists>ts. tags event = Present ts \<and> (\<exists>tag\<in>set ts. sublist (js ''sport'') (toLowerCase h tag)))"

text \<open>
  The related terms that a query triggers in a vocabulary, in the specification's words:
  the synonyms of every key that is the whole normalized query or one of its
  white-space-delimited words.
\<close>

definition relatedTerms :: "(jsString \<times> jsString list) list \<Rightarrow> jsString \<Rightarrow> jsString set" where
  "relatedTerms vocabulary normalized =
     (\<Union>(key, synonyms) \<in> {entry \<in> set vocabulary.
                                 fst entry \<in> set (split_ws normalized) \<or> fst entry = normalized}.
        set synonyms)"

text \<open>
  The parser of the example hosts reads two forms, both as every major engine reads
  them: the date-only form \<open>YYYY-MM-DD\<close> of the ECMAScript date-time format, as midnight
  UTC of that day, and the form \<open>Month D, YYYY\<close> with an English month name, as midnight
  of that day in local time. It rejects every other string; the engines accept more
  forms than these two. The examples give it strings of these two forms and the string
  \<open>TBD\<close> only.
\<close>

definition digitVal :: "int \<Rightarrow> int option" where
  "digitVal c = (if 48 \<le> c \<and> c \<le> 57 then Some (c - 48) else None)"

fun digitsVal :: "int \<Rightarrow> jsString \<Rightarrow> int option" where
  "digitsVal acc [] = Some acc"
| "digitsVal acc (c # cs) =
     (case digitVal c of None \<Rightarrow> None | Some v \<Rightarrow> digitsVal (10 * acc + v) cs)"

definition daysInMonth :: "int \<Rightarrow> int \<Rightarrow> int" where
  "daysInMonth y m =
     (if m = 2 then (if y mod 4 = 0 \<and> (y mod 100 \<noteq> 0 \<or> y mod 400 = 0) then 29 else 28)
      else if m = 4 \<or> m = 6 \<or> m = 9 \<or> m = 11 then 30 else 31)"

definition isoDateParse :: "jsString \<Rightarrow> int option" where
  "isoDateParse s =
     (if length s = 10 \<and> s ! 4 = 45 \<and> s ! 7 = 45 then
        (case (digitsVal 0 (take 4 s), digitsVal 0 (take 2 (drop 5 s)), digitsVal 0 (drop 8 s)) of
           (Some y, Some m, Some d) \<Rightarrow>
             if 1 \<le> m \<and> m \<le> 12 \<and> 1 \<le> d \<and> d \<le> daysInMonth y m
             then Some (daysFromCivil y m d * msPerDay) else None
         | _ \<Rightarrow> None)
      else None)"

definition monthNames :: "(jsString \<times> int) list" where
  "monthNames = map (\<lambda>(name, m). (js name, m))
     [(''January'', 1), (''February'', 2), (''March'', 3), (''April'', 4), (''May'', 5),
      (''June'', 6), (''July'', 7), (''August'', 8), (''September'', 9), (''October'', 10),
      (''November'', 11), (''December'', 12)]"

definition monthDayYearParse :: "(int \<Rightarrow> bool \<Rightarrow> int) \<Rightarrow> jsString \<Rightarrow> int option" where
  "monthDayYearParse tza s =
     (case split_ws s of
        [month, day, year] \<Rightarrow>
          (if day \<noteq> [] \<and> last day = 44 \<and> butlast day \<noteq> [] \<and> length year = 4 then
             (case (map_of monthNames month, digitsVal 0 (butlast day), digitsVal 0 year) of
                (Some m, Some d, Some y) \<Rightarrow>
                  if 1 \<le> d \<and> d \<le> daysInMonth y m
                  then Some (daysFromCivil y m d * msPerDay
                             - tza (daysFromCivil y m d * msPerDay) False)
                  else None
              | _ \<Rightarrow> None)
           else None)
      | _ \<Rightarrow> None)"

definition exampleParse :: "(int \<Rightarrow> bool \<Rightarrow> int) \<Rightarrow> jsString \<Rightarrow> int option" where
  "exampleParse tza s =
     (case isoDateParse s of Some t \<Rightarrow> Some t | None \<Rightarrow> monthDayYearParse tza s)"

text \<open>
  Example hosts: a browser in Berkeley in June (Pacific Daylight Time, UTC-7) and one
  in Berlin (Central European Summer Time, UTC+2). The examples use ASCII strings
  only, so the Unicode case mapping of the example hosts is never consulted.
\<close>

definition berkeleyHost :: host where
  "berkeleyHost =
     \<lparr> localTZA = (\<lambda>t isUTC. - 25200000),
       parseDate = exampleParse (\<lambda>t isUTC. - 25200000),
       lowerUnicode = (\<lambda>s. s) \<rparr>"

definition berlinHost :: host where
  "berlinHost =
     \<lparr> localTZA = (\<lambda>t isUTC. 7200000),
       parseDate = exampleParse (\<lambda>t isUTC. 7200000),
       lowerUnicode = (\<lambda>s. s) \<rparr>"

text \<open>An event with every text property empty and no tags; the examples update it.\<close>

definition blankEvent :: CalEvent where
  "blankEvent =
     \<lparr> id_ = Present (js ''e1''), title = Present [], organizer = Present [],
       date = Present (js ''2024-06-11''), time = Present [], location = Present [],
       description = Present [], tags = Present [], url = Present [] \<rparr>"

definition searchFor :: "jsString \<Rightarrow> SearchFilters" where
  "searchFor q = \<lparr> dateRange = Upcoming, category = js ''All'', searchQuery = q \<rparr>"

definition inRange :: "DateRange \<Rightarrow> SearchFilters" where
  "inRange r = \<lparr> dateRange = r, category = js ''All'', searchQuery = [] \<rparr>"

section \<open>Properties of the string primitives\<close>

lemma str_includes_sublist: "str_includes hay needle \<longleftrightarrow> sublist needle hay"
  by (induction hay) (auto simp: sublist_Cons_right)

lemma isWordChar_asciiLower: "isWordChar (asciiLower c) = isWordChar c"
  by (auto simp: isWordChar_def asciiLower_def)

section \<open>The filter with a callback that may raise\<close>

lemma filterE_no_raise:
  "\<forall>x\<in>set xs. p x \<noteq> Inl TypeError \<Longrightarrow> filterE p xs = Inr (filter (\<lambda>x. p x = Inr True) xs)"
proof (induction xs)
  case Nil
  show ?case by simp
next
  case (Cons x xs)
  from Cons.prems obtain b where b: "p x = Inr b"
    by (cases "p x") (auto intro: error.exhaust)
  from Cons have "filterE p xs = Inr (filter (\<lambda>x. p x = Inr True) xs)" by simp
  with b show ?case by simp
qed

lemma filterE_raise:
  "\<exists>x\<in>set xs. p x = Inl TypeError \<Longrightarrow> filterE p xs = Inl TypeError"
proof (induction xs)
  case Nil
  then show ?case by simp
next
  case (Cons x xs)
  show ?case
  proof (cases "p x")
    case (Inl e)
    then show ?thesis by (cases e) simp
  next
    case (Inr b)
    with Cons.prems have "\<exists>x\<in>set xs. p x = Inl TypeError" by auto
    with Cons.IH have "filterE p xs = Inl TypeError" by simp
    with Inr show ?thesis by simp
  qed
qed

lemma filterE_rejected:
  "p x = Inr False \<Longrightarrow> filterE p (xs @ x # ys) = filterE p (xs @ ys)"
  by (induction xs) (simp_all split: sum.splits)

section \<open>Properties of the date window\<close>

lemma toDateString_valid: "toDateString h (Some t) \<noteq> InvalidDate"
  by (simp add: toDateString_def split: prod.splits)

text \<open>
  C10. For every event and every reference instant, when the filter state's
  \<open>dateRange\<close> is one of the reserved values \<open>month\<close> or \<open>weekend\<close>, the date predicate
  returns true unconditionally, exactly as under \<open>upcoming\<close>: only \<open>today\<close> and \<open>week\<close>
  have evaluators.
\<close>

theorem reserved_ranges_unrestricted:
  "matchesDate h now (filters\<lparr>dateRange := Month\<rparr>) event
   \<and> matchesDate h now (filters\<lparr>dateRange := Weekend\<rparr>) event
   \<and> matchesDate h now (filters\<lparr>dateRange := Upcoming\<rparr>) event"
  by (simp add: matchesDate_def)

text \<open>
  C9. Every event whose date field is malformed should fail the date predicate under
  \<open>today\<close> and \<open>week\<close>. The code never looks at the form of the date: it hands the
  string to \<open>new Date\<close> and judges the instant that comes back. The string
  "June 11, 2024" is not of the form \<open>YYYY-MM-DD\<close>, yet the host reads it as local
  midnight of that day, and at noon of that day in Berkeley (1718132400000) the event
  passes both \<open>today\<close> and \<open>week\<close>.
\<close>

theorem malformed_date_accepted_counterexample:
  "isoDateParse (js ''June 11, 2024'') = None
   \<and> newDate berkeleyHost (Present (js ''June 11, 2024'')) = Some 1718089200000
   \<and> toDateString berkeleyHost (Some 1718132400000) = DateString 2 6 11 2024
   \<and> matchesDate berkeleyHost 1718132400000 (inRange Today)
       (blankEvent\<lparr>date := Present (js ''June 11, 2024'')\<rparr>)
   \<and> matchesDate berkeleyHost 1718132400000 (inRange Week)
       (blankEvent\<lparr>date := Present (js ''June 11, 2024'')\<rparr>)"
  by code_simp

text \<open>
  C9, as amended. For every event whose date field the host's parser rejects
  (\<open>new Date(event.date)\<close> is an invalid date), the date predicate is false under
  \<open>today\<close> and under \<open>week\<close> and true under \<open>upcoming\<close>; it is a total boolean
  function, so it raises nothing. Under \<open>today\<close> and \<open>week\<close> such an event is dropped
  and the others are filtered as in the batch without it: the result for a batch
  holding the event is the result for the batch without it, unless the search or the
  locality evaluation of the event itself raises.
\<close>

theorem unparsable_date_fails_closed:
  assumes "newDate h (date event) = None"
  shows "\<not> matchesDate h now (filters\<lparr>dateRange := Today\<rparr>) event
       \<and> \<not> matchesDate h now (filters\<lparr>dateRange := Week\<rparr>) event
       \<and> matchesDate h now (filters\<lparr>dateRange := Upcoming\<rparr>) event
       \<and> (dateRange filters = Today \<or> dateRange filters = Week
          \<longrightarrow> filteredEvents h now (before @ event # after) filters
              = (if keepEvent h now filters event = Inl TypeError then Inl TypeError
                 else filteredEvents h now (before @ after) filters))"
proof -
  have today: "\<not> matchesDate h now (f\<lparr>dateRange := Today\<rparr>) event" for f
    using assms toDateString_valid [of h "setHoursZero h now"]
    by (simp add: matchesDate_def toDateString_def)
  have week: "\<not> matchesDate h now (f\<lparr>dateRange := Week\<rparr>) event" for f
    using assms by (simp add: matchesDate_def)
  have upcoming: "matchesDate h now (filters\<lparr>dateRange := Upcoming\<rparr>) event"
    by (simp add: matchesDate_def)
  have batch: "filteredEvents h now (before @ event # after) filters
              = (if keepEvent h now filters event = Inl TypeError then Inl TypeError
                 else filteredEvents h now (before @ after) filters)"
    if range: "dateRange filters = Today \<or> dateRange filters = Week"
  proof (cases "keepEvent h now filters event = Inl TypeError")
    case True
    then have "\<exists>e\<in>set (before @ event # after). keepEvent h now filters e = Inl TypeError"
      by simp
    then have "filteredEvents h now (before @ event # after) filters = Inl TypeError"
      unfolding filteredEvents_def by (rule filterE_raise)
    with True show ?thesis by simp
  next
    case False
    from range have "\<not> matchesDate h now filters event"
    proof
      assume "dateRange filters = Today"
      then have "filters\<lparr>dateRange := Today\<rparr> = filters" by simp
      with today [of filters] show ?thesis by simp
    next
      assume "dateRange filters = Week"
      then have "filters\<lparr>dateRange := Week\<rparr> = filters" by simp
      with week [of filters] show ?thesis by simp
    qed
    with False have "keepEvent h now filters event = Inr False"
      by (auto simp: keepEvent_def Let_def split: sum.splits intro: error.exhaust)
    then have "filteredEvents h now (before @ event # after) filters
                 = filteredEvents h now (before @ after) filters"
      unfolding filteredEvents_def by (rule filterE_rejected)
    with False show ?thesis by simp
  qed
  from today week upcoming batch show ?thesis by blast
qed

theorem unparsable_date_fails_closed_witness:
  "newDate berkeleyHost (date (blankEvent\<lparr>date := Present (js ''TBD'')\<rparr>)) = None
   \<and> (dateRange (inRange Week) = Today \<or> dateRange (inRange Week) = Week)
   \<and> \<not> matchesDate berkeleyHost 1718046000000 (inRange Week\<lparr>dateRange := Today\<rparr>)
          (blankEvent\<lparr>date := Present (js ''TBD'')\<rparr>)
   \<and> \<not> matchesDate berkeleyHost 1718046000000 (inRange Week\<lparr>dateRange := Week\<rparr>)
          (blankEvent\<lparr>date := Present (js ''TBD'')\<rparr>)
   \<and> matchesDate berkeleyHost 1718046000000 (inRange Week\<lparr>dateRange := Upcoming\<rparr>)
          (blankEvent\<lparr>date := Present (js ''TBD'')\<rparr>)
   \<and> filteredEvents berkeleyHost 1718046000000
          ([blankEvent] @ blankEvent\<lparr>date := Present (js ''TBD'')\<rparr> # [blankEvent]) (inRange Week)
        = (if keepEvent berkeleyHost 1718046000000 (inRange Week)
                (blankEvent\<lparr>date := Present (js ''TBD'')\<rparr>) = Inl TypeError
           then Inl TypeError
           else filteredEvents berkeleyHost 1718046000000 ([blankEvent] @ [blankEvent])
                  (inRange Week))"
proof -
  have unparsable: "newDate berkeleyHost (date (blankEvent\<lparr>date := Present (js ''TBD'')\<rparr>)) = None"
    by code_simp
  have range: "dateRange (inRange Week) = Today \<or> dateRange (inRange Week) = Week"
    by (simp add: inRange_def)
  from unparsable_date_fails_closed
         [OF unparsable, of 1718046000000 "inRange Week" "[blankEvent]" "[blankEvent]"]
    range unparsable
  show ?thesis by blast
qed

section \<open>Properties of the locality heuristic\<close>

lemma isSportsEvent_iff: "isSportsEvent h event \<longleftrightarrow> sportsTagged h event"
  by (cases "tags event")
     (simp_all add: isSportsEvent_def sportsTagged_def list_ex_iff str_includes_sublist)

text \<open>
  C3. The locality heuristic returns true for every event whose tags do not contain
  the case-insensitive substring "sport"; for every sports-tagged event it returns
  true if and only if the lowercased location field contains at least one substring of
  the fixed Berkeley allowlist (so not when there is no location), and with a location
  string it returns whether that is so. A sports event located "Stanford, CA" is
  excluded and the same event located "Haas Pavilion, Berkeley, CA" is included.
\<close>

theorem isHomeGame_locality:
  "(\<not> sportsTagged h event \<longrightarrow> isHomeGame h event = Inr True)
   \<and> (sportsTagged h event \<longrightarrow>
        (isHomeGame h event = Inr True \<longleftrightarrow>
           (\<exists>loc. location event = Present loc
                  \<and> (\<exists>place\<in>set BERKELEY_LOCATIONS. sublist place (toLowerCase h loc)))))
   \<and> (sportsTagged h event \<and> location event = Present loc \<longrightarrow>
        isHomeGame h event = Inr (\<exists>place\<in>set BERKELEY_LOCATIONS. sublist place (toLowerCase h loc)))
   \<and> isHomeGame h (blankEvent\<lparr>tags := Present [js ''Sports''],
                                location := Present (js ''Stanford, CA'')\<rparr>)
       = Inr False
   \<and> isHomeGame h (blankEvent\<lparr>tags := Present [js ''Sports''],
                                location := Present (js ''Haas Pavilion, Berkeley, CA'')\<rparr>)
       = Inr True"
proof (intro conjI impI)
  assume "\<not> sportsTagged h event"
  then show "isHomeGame h event = Inr True"
    by (simp add: isHomeGame_def isSportsEvent_iff)
next
  assume "sportsTagged h event"
  then show "isHomeGame h event = Inr True \<longleftrightarrow>
           (\<exists>loc. location event = Present loc
                  \<and> (\<exists>place\<in>set BERKELEY_LOCATIONS. sublist place (toLowerCase h loc)))"
    by (cases "location event")
       (simp_all add: isHomeGame_def isSportsEvent_iff list_ex_iff str_includes_sublist)
next
  assume "sportsTagged h event \<and> location event = Present loc"
  then show "isHomeGame h event
               = Inr (\<exists>place\<in>set BERKELEY_LOCATIONS. sublist place (toLowerCase h loc))"
    by (simp add: isHomeGame_def isSportsEvent_iff list_ex_iff str_includes_sublist)
next
  show "isHomeGame h (blankEvent\<lparr>tags := Present [js ''Sports''],
                                location := Present (js ''Stanford, CA'')\<rparr>)
          = Inr False"
    by code_simp
next
  show "isHomeGame h (blankEvent\<lparr>tags := Present [js ''Sports''],
                                location := Present (js ''Haas Pavilion, Berkeley, CA'')\<rparr>)
          = Inr True"
    by code_simp
qed

theorem isHomeGame_locality_witness:
  "\<not> sportsTagged berkeleyHost (blankEvent\<lparr>tags := Present [js ''Arts'']\<rparr>)
   \<and> isHomeGame berkeleyHost (blankEvent\<lparr>tags := Present [js ''Arts'']\<rparr>) = Inr True
   \<and> sportsTagged berkeleyHost
        (blankEvent\<lparr>tags := Present [js ''Sports''], location := Present (js ''Stanford, CA'')\<rparr>)
   \<and> location (blankEvent\<lparr>tags := Present [js ''Sports''], location := Present (js ''Stanford, CA'')\<rparr>)
       = Present (js ''Stanford, CA'')
   \<and> (isHomeGame berkeleyHost
         (blankEvent\<lparr>tags := Present [js ''Sports''], location := Present (js ''Stanford, CA'')\<rparr>)
       = Inr True \<longleftrightarrow>
       (\<exists>loc. location (blankEvent\<lparr>tags := Present [js ''Sports''],
                                     location := Present (js ''Stanford, CA'')\<rparr>) = Present loc
              \<and> (\<exists>place\<in>set BERKELEY_LOCATIONS. sublist place (toLowerCase berkeleyHost loc))))
   \<and> isHomeGame berkeleyHost
        (blankEvent\<lparr>tags := Present [js ''Sports''], location := Present (js ''Stanford, CA'')\<rparr>)
       = Inr (\<exists>place\<in>set BERKELEY_LOCATIONS.
                sublist place (toLowerCase berkeleyHost (js ''Stanford, CA'')))
   \<and> sportsTagged berkeleyHost (blankEvent\<lparr>tags := Present [js ''Sports''], location := Null\<rparr>)
   \<and> (isHomeGame berkeleyHost (blankEvent\<lparr>tags := Present [js ''Sports''], location := Null\<rparr>)
       = Inr True \<longleftrightarrow>
       (\<exists>loc. location (blankEvent\<lparr>tags := Present [js ''Sports''], location := Null\<rparr>) = Present loc
              \<and> (\<exists>place\<in>set BERKELEY_LOCATIONS. sublist place (toLowerCase berkeleyHost loc))))"
proof -
  let ?A = "blankEvent\<lparr>tags := Present [js ''Arts'']\<rparr>"
  let ?S = "blankEvent\<lparr>tags := Present [js ''Sports''], location := Present (js ''Stanford, CA'')\<rparr>"
  let ?N = "blankEvent\<lparr>tags := Present [js ''Sports''], location := Null\<rparr>"
  have "\<not> isSportsEvent berkeleyHost ?A" by code_simp
  then have arts: "\<not> sportsTagged berkeleyHost ?A" by (simp add: isSportsEvent_iff)
  have "isSportsEvent berkeleyHost ?S" by code_simp
  then have sports: "sportsTagged berkeleyHost ?S" by (simp add: isSportsEvent_iff)
  have "isSportsEvent berkeleyHost ?N" by code_simp
  then have nowhere: "sportsTagged berkeleyHost ?N" by (simp add: isSportsEvent_iff)
  have loc: "location ?S = Present (js ''Stanford, CA'')" by simp
  from isHomeGame_locality [of berkeleyHost ?A] arts
  have 1: "isHomeGame berkeleyHost ?A = Inr True" by blast
  from isHomeGame_locality [of berkeleyHost ?S "js ''Stanford, CA''"] sports loc
  have 2: "isHomeGame berkeleyHost ?S = Inr True \<longleftrightarrow>
       (\<exists>loc. location ?S = Present loc
              \<and> (\<exists>place\<in>set BERKELEY_LOCATIONS. sublist place (toLowerCase berkeleyHost loc)))"
    and 3: "isHomeGame berkeleyHost ?S
       = Inr (\<exists>place\<in>set BERKELEY_LOCATIONS.
                sublist place (toLowerCase berkeleyHost (js ''Stanford, CA'')))"
    by blast+
  from isHomeGame_locality [of berkeleyHost ?N] nowhere
  have 4: "isHomeGame berkeleyHost ?N = Inr True \<longleftrightarrow>
       (\<exists>loc. location ?N = Present loc
              \<and> (\<exists>place\<in>set BERKELEY_LOCATIONS. sublist place (toLowerCase berkeleyHost loc)))"
    by blast
  from arts 1 sports loc 2 3 nowhere 4 show ?thesis by (intro conjI)
qed

section \<open>Properties of the text match evaluator\<close>

lemma startsWithWord_iff: "startsWithWord s \<longleftrightarrow> s \<noteq> [] \<and> isWordChar (hd s)"
  by (cases s) (simp_all add: startsWithWord_def)

lemma same_letters_word_ends:
  assumes "map asciiLower found = map asciiLower t" "t \<noteq> []"
  shows "found \<noteq> [] \<and> isWordChar (hd found) = isWordChar (hd t)
         \<and> isWordChar (last found) = isWordChar (last t) \<and> length found = length t"
proof -
  from assms have ne: "found \<noteq> []" by auto
  have len: "length found = length t" using assms(1) by (rule map_eq_imp_length_eq)
  have "asciiLower (hd found) = asciiLower (hd t)"
    using assms ne by (metis hd_map)
  then have h: "isWordChar (hd found) = isWordChar (hd t)"
    by (metis isWordChar_asciiLower)
  have "asciiLower (last found) = asciiLower (last t)"
    using assms ne by (metis last_map)
  then have l: "isWordChar (last found) = isWordChar (last t)"
    by (metis isWordChar_asciiLower)
  from ne h l len show ?thesis by simp
qed

lemma matchAt_literal:
  assumes t: "t \<noteq> []" "isWordChar (hd t)" "isWordChar (last t)"
  shows "matchAt t prevWord rest \<longleftrightarrow>
           \<not> prevWord \<and> (\<exists>found after. rest = found @ after
                              \<and> map asciiLower found = map asciiLower t
                              \<and> (after = [] \<or> \<not> isWordChar (hd after)))"
proof
  assume m: "matchAt t prevWord rest"
  let ?found = "take (length t) rest"
  let ?after = "drop (length t) rest"
  from m have len: "length t \<le> length rest"
    and eq: "map asciiLower ?found = map asciiLower t"
    and b1: "prevWord \<noteq> startsWithWord rest"
    and b2: "(if ?found = [] then prevWord else isWordChar (last ?found)) \<noteq> startsWithWord ?after"
    by (simp_all add: matchAt_def Let_def)
  note ends = same_letters_word_ends [OF eq t(1)]
  have rest: "rest = ?found @ ?after" by simp
  from ends have "hd rest = hd ?found" by (metis hd_append2 rest)
  with ends t(2) have "startsWithWord rest"
    by (auto simp: startsWithWord_iff)
  with b1 have np: "\<not> prevWord" by simp
  from b2 ends t(3) have "\<not> startsWithWord ?after" by simp
  then have "?after = [] \<or> \<not> isWordChar (hd ?after)"
    by (simp add: startsWithWord_iff)
  with rest eq np show "\<not> prevWord \<and> (\<exists>found after. rest = found @ after
                              \<and> map asciiLower found = map asciiLower t
                              \<and> (after = [] \<or> \<not> isWordChar (hd after)))"
    by blast
next
  assume "\<not> prevWord \<and> (\<exists>found after. rest = found @ after
                              \<and> map asciiLower found = map asciiLower t
                              \<and> (after = [] \<or> \<not> isWordChar (hd after)))"
  then obtain found after where np: "\<not> prevWord" and rest: "rest = found @ after"
    and eq: "map asciiLower found = map asciiLower t"
    and a: "after = [] \<or> \<not> isWordChar (hd after)" by blast
  note ends = same_letters_word_ends [OF eq t(1)]
  from ends have tk: "take (length t) rest = found" and dr: "drop (length t) rest = after"
    using rest by simp_all
  from ends rest have "hd rest = hd found" by (metis hd_append2)
  with ends t(2) rest have s: "startsWithWord rest" by (auto simp: startsWithWord_iff)
  from a have na: "\<not> startsWithWord after" by (auto simp: startsWithWord_iff)
  from ends rest have len: "length t \<le> length rest" by simp
  from ends rest have ne: "rest \<noteq> []" by simp
  show "matchAt t prevWord rest"
    using np s na ends t(1,3) eq len ne by (simp add: matchAt_def Let_def tk dr)
qed

lemma regexSearch_literal:
  assumes t: "t \<noteq> []" "isWordChar (hd t)" "isWordChar (last t)"
  shows "regexSearch t prevWord s \<longleftrightarrow>
           (\<exists>before found after. s = before @ found @ after
              \<and> map asciiLower found = map asciiLower t
              \<and> (if before = [] then \<not> prevWord else \<not> isWordChar (last before))
              \<and> (after = [] \<or> \<not> isWordChar (hd after)))"
proof (induction s arbitrary: prevWord)
  case Nil
  have "\<not> matchAt t prevWord []" using t(1) by (simp add: matchAt_def Let_def)
  moreover have "\<not> (\<exists>before found after. [] = before @ found @ after
              \<and> map asciiLower found = map asciiLower t
              \<and> (if before = [] then \<not> prevWord else \<not> isWordChar (last before))
              \<and> (after = [] \<or> \<not> isWordChar (hd after)))"
    using t(1) by auto
  ultimately show ?case by simp
next
  case (Cons c cs)
  note m = matchAt_literal [OF t, of prevWord "c # cs"]
  note ih = Cons.IH [of "isWordChar c"]
  show ?case
  proof
    assume "regexSearch t prevWord (c # cs)"
    then consider "matchAt t prevWord (c # cs)" | "regexSearch t (isWordChar c) cs" by auto
    then show "\<exists>before found after. c # cs = before @ found @ after
              \<and> map asciiLower found = map asciiLower t
              \<and> (if before = [] then \<not> prevWord else \<not> isWordChar (last before))
              \<and> (after = [] \<or> \<not> isWordChar (hd after))"
    proof cases
      case 1
      with m obtain found after where "\<not> prevWord" "c # cs = found @ after"
        "map asciiLower found = map asciiLower t" "after = [] \<or> \<not> isWordChar (hd after)"
        by blast
      then have "c # cs = [] @ found @ after \<and> map asciiLower found = map asciiLower t
              \<and> (if [] = ([]::jsString) then \<not> prevWord else \<not> isWordChar (last []))
              \<and> (after = [] \<or> \<not> isWordChar (hd after))" by simp
      then show ?thesis by blast
    next
      case 2
      with ih obtain before found after where cs: "cs = before @ found @ after"
        and eq: "map asciiLower found = map asciiLower t"
        and b: "if before = [] then \<not> isWordChar c else \<not> isWordChar (last before)"
        and a: "after = [] \<or> \<not> isWordChar (hd after)" by blast
      have "c # cs = (c # before) @ found @ after" using cs by simp
      moreover have "if c # before = [] then \<not> prevWord else \<not> isWordChar (last (c # before))"
        using b by (simp split: if_splits)
      ultimately show ?thesis using a eq by blast
    qed
  next
    assume "\<exists>before found after. c # cs = before @ found @ after
              \<and> map asciiLower found = map asciiLower t
              \<and> (if before = [] then \<not> prevWord else \<not> isWordChar (last before))
              \<and> (after = [] \<or> \<not> isWordChar (hd after))"
    then obtain before found after where e: "c # cs = before @ found @ after"
        and eq: "map asciiLower found = map asciiLower t"
        and b: "if before = [] then \<not> prevWord else \<not> isWordChar (last before)"
        and a: "after = [] \<or> \<not> isWordChar (hd after)" by blast
    show "regexSearch t prevWord (c # cs)"
    proof (cases before)
      case Nil
      with e b a eq m have "matchAt t prevWord (c # cs)" by auto
      then show ?thesis by simp
    next
      case (Cons b' bs)
      with e have c: "b' = c" and cs: "cs = bs @ found @ after" by simp_all
      from b Cons c have "if bs = [] then \<not> isWordChar c else \<not> isWordChar (last bs)"
        by (simp split: if_splits)
      with cs a eq ih have "regexSearch t (isWordChar c) cs" by blast
      then show ?thesis by simp
    qed
  qed
qed

lemma wordBoundaryTest_whole_word:
  assumes "t \<noteq> []" "isWordChar (hd t)" "isWordChar (last t)"
  shows "wordBoundaryTest t hay \<longleftrightarrow> wholeWordOccurrence t hay"
proof -
  have "(\<exists>before found after. hay = before @ found @ after
              \<and> map asciiLower found = map asciiLower t
              \<and> (if before = [] then \<not> False else \<not> isWordChar (last before))
              \<and> (after = [] \<or> \<not> isWordChar (hd after)))
        \<longleftrightarrow> wholeWordOccurrence t hay"
    unfolding wholeWordOccurrence_def
    by (intro arg_cong [where f = Ex] ext) (simp split: if_splits)
  with regexSearch_literal [OF assms, of False hay] show ?thesis
    by (simp only: wordBoundaryTest_def)
qed

lemma WHOLE_WORD_ONLY_literal:
  assumes "t \<in> set WHOLE_WORD_ONLY"
  shows "t \<noteq> [] \<and> isWordChar (hd t) \<and> isWordChar (last t)"
proof -
  have "list_all (\<lambda>t. t \<noteq> [] \<and> isWordChar (hd t) \<and> isWordChar (last t)) WHOLE_WORD_ONLY"
    by code_simp
  with assms show ?thesis by (simp add: list_all_iff)
qed

lemma termMatches_modes:
  "termMatches text term \<longleftrightarrow>
     (if term \<in> set WHOLE_WORD_ONLY then wholeWordOccurrence term text else sublist term text)"
proof (cases "term \<in> set WHOLE_WORD_ONLY")
  case True
  from WHOLE_WORD_ONLY_literal [OF True]
  have "wordBoundaryTest term text \<longleftrightarrow> wholeWordOccurrence term text"
    by (intro wordBoundaryTest_whole_word) simp_all
  with True show ?thesis by (simp add: termMatches_def)
next
  case False
  then show ?thesis by (simp add: termMatches_def str_includes_sublist)
qed

lemma join_sp_concat: "join_sp (x # xs) = x @ concat (map (\<lambda>y. js '' '' @ y) xs)"
  by (induction xs arbitrary: x) simp_all

lemma searchableText_concat:
  "searchableText h event =
     toLowerCase h
       ((case title event of Present s \<Rightarrow> s | _ \<Rightarrow> []) @ js '' ''
        @ (case description event of Present s \<Rightarrow> s | _ \<Rightarrow> []) @ js '' ''
        @ (case organizer event of Present s \<Rightarrow> s | _ \<Rightarrow> [])
        @ concat (map (\<lambda>tag. js '' '' @ tag) (case tags event of Present l \<Rightarrow> l | _ \<Rightarrow> [])))"
  by (simp add: searchableText_def join_sp_concat joinText_def)


text \<open>
  C8. For an event whose searchable text holds the phrase "deep learning models" and no
  other term related to the query, a literal search for "ml" or for "machine learning"
  does not match; the claim that after synonym expansion both searches match fails for
  "ml", whose related terms do not include "deep learning".
\<close>

theorem ml_expansion_counterexample:
  "\<not> (\<not> eventMatchesSearch berkeleyHost
            (blankEvent\<lparr>description := Present (js ''deep learning models'')\<rparr>) [js ''ml'']
      \<and> \<not> eventMatchesSearch berkeleyHost
            (blankEvent\<lparr>description := Present (js ''deep learning models'')\<rparr>)
            [js ''machine learning'']
      \<and> matchesSearch berkeleyHost (searchFor (js ''ml''))
            (blankEvent\<lparr>description := Present (js ''deep learning models'')\<rparr>) = Inr True
      \<and> matchesSearch berkeleyHost (searchFor (js ''machine learning''))
            (blankEvent\<lparr>description := Present (js ''deep learning models'')\<rparr>) = Inr True)"
proof -
  have "matchesSearch berkeleyHost (searchFor (js ''ml''))
          (blankEvent\<lparr>description := Present (js ''deep learning models'')\<rparr>) = Inr False"
    by code_simp
  then show ?thesis by simp
qed

lemma expandSearchQuery_ml:
  "expandSearchQuery h (js ''ml'')
     = Inr (map js [''ml'', ''machine learning'', ''ai'', ''artificial intelligence''])"
  by code_simp

lemma expandSearchQuery_machine_learning:
  "expandSearchQuery h (js ''machine learning'')
     = Inr (map js [''machine learning'', ''ml'', ''ai'', ''artificial intelligence'',
                    ''deep learning''])"
  by code_simp

lemma matchesSearch_terms:
  assumes "trim q \<noteq> []" "expandSearchQuery h (trim q) = Inr terms"
  shows "matchesSearch h (searchFor q) event
           = Inr (\<exists>term\<in>set terms. termMatches (searchableText h event) term)"
  using assms by (simp add: matchesSearch_def searchFor_def eventMatchesSearch_def list_ex_iff)

text \<open>
  C8, as amended. For every event whose searchable text contains the phrase
  "deep learning models" and none of the other terms related to the two queries ("ml"
  and "ai" as whole words, "machine learning" and "artificial intelligence" anywhere), a
  literal search for "ml" or for "machine learning" does not match the event; after
  synonym expansion, searching "machine learning" matches it, because "deep learning"
  is one of its related terms, while searching "ml" expands to "ml",
  "machine learning", "ai" and "artificial intelligence" only and still does not match.
\<close>

theorem deep_learning_expansion:
  "(let haystack =
          toLowerCase h
            ((case title event of Present s \<Rightarrow> s | _ \<Rightarrow> []) @ js '' ''
             @ (case description event of Present s \<Rightarrow> s | _ \<Rightarrow> []) @ js '' ''
             @ (case organizer event of Present s \<Rightarrow> s | _ \<Rightarrow> [])
             @ concat (map (\<lambda>tag. js '' '' @ tag)
                         (case tags event of Present l \<Rightarrow> l | _ \<Rightarrow> [])))
    in sublist (js ''deep learning models'') haystack
       \<and> \<not> wholeWordOccurrence (js ''ml'') haystack
       \<and> \<not> wholeWordOccurrence (js ''ai'') haystack
       \<and> \<not> sublist (js ''machine learning'') haystack
       \<and> \<not> sublist (js ''artificial intelligence'') haystack
       \<longrightarrow> \<not> eventMatchesSearch h event [js ''ml'']
           \<and> \<not> eventMatchesSearch h event [js ''machine learning'']
           \<and> matchesSearch h (searchFor (js ''machine learning'')) event = Inr True
           \<and> matchesSearch h (searchFor (js ''ml'')) event = Inr False)
   \<and> expandSearchQuery h (js ''machine learning'')
       = Inr (map js [''machine learning'', ''ml'', ''ai'', ''artificial intelligence'',
                      ''deep learning''])
   \<and> expandSearchQuery h (js ''ml'')
       = Inr (map js [''ml'', ''machine learning'', ''ai'', ''artificial intelligence''])"
proof (intro conjI)
  let ?T = "searchableText h event"
  have main: "\<not> eventMatchesSearch h event [js ''ml'']
           \<and> \<not> eventMatchesSearch h event [js ''machine learning'']
           \<and> matchesSearch h (searchFor (js ''machine learning'')) event = Inr True
           \<and> matchesSearch h (searchFor (js ''ml'')) event = Inr False"
    if phrase: "sublist (js ''deep learning models'') ?T"
      and ml: "\<not> wholeWordOccurrence (js ''ml'') ?T"
      and ai: "\<not> wholeWordOccurrence (js ''ai'') ?T"
      and mach: "\<not> sublist (js ''machine learning'') ?T"
      and art: "\<not> sublist (js ''artificial intelligence'') ?T"
  proof -
    have whole: "js ''ml'' \<in> set WHOLE_WORD_ONLY" "js ''ai'' \<in> set WHOLE_WORD_ONLY"
      by code_simp+
    have plain: "js ''machine learning'' \<notin> set WHOLE_WORD_ONLY"
      "js ''artificial intelligence'' \<notin> set WHOLE_WORD_ONLY"
      "js ''deep learning'' \<notin> set WHOLE_WORD_ONLY"
      by code_simp+
    have "sublist (js ''deep learning'') (js ''deep learning models'')" by code_simp
    from this phrase have deep: "sublist (js ''deep learning'') ?T"
      by (rule sublist_order.order_trans)
    have t_ml: "\<not> termMatches ?T (js ''ml'')" using ml whole by (simp add: termMatches_modes)
    have t_ai: "\<not> termMatches ?T (js ''ai'')" using ai whole by (simp add: termMatches_modes)
    have t_mach: "\<not> termMatches ?T (js ''machine learning'')"
      using mach plain by (simp add: termMatches_modes)
    have t_art: "\<not> termMatches ?T (js ''artificial intelligence'')"
      using art plain by (simp add: termMatches_modes)
    have t_deep: "termMatches ?T (js ''deep learning'')"
      using deep plain by (simp add: termMatches_modes)
    have q1: "trim (js ''ml'') = js ''ml''" "trim (js ''machine learning'') = js ''machine learning''"
      by code_simp+
    have ne: "js ''ml'' \<noteq> []" "js ''machine learning'' \<noteq> []" by code_simp+
    have 1: "\<not> eventMatchesSearch h event [js ''ml'']"
      using t_ml by (simp add: eventMatchesSearch_def)
    have 2: "\<not> eventMatchesSearch h event [js ''machine learning'']"
      using t_mach by (simp add: eventMatchesSearch_def)
    have 3: "matchesSearch h (searchFor (js ''machine learning'')) event = Inr True"
      using matchesSearch_terms [of "js ''machine learning''" h _ event]
        expandSearchQuery_machine_learning [of h] q1 ne t_deep
      by simp
    have 4: "matchesSearch h (searchFor (js ''ml'')) event = Inr False"
      using matchesSearch_terms [of "js ''ml''" h _ event]
        expandSearchQuery_ml [of h] q1 ne t_ml t_ai t_mach t_art
      by simp
    from 1 2 3 4 show ?thesis by simp
  qed
  then show "let haystack =
          toLowerCase h
            ((case title event of Present s \<Rightarrow> s | _ \<Rightarrow> []) @ js '' ''
             @ (case description event of Present s \<Rightarrow> s | _ \<Rightarrow> []) @ js '' ''
             @ (case organizer event of Present s \<Rightarrow> s | _ \<Rightarrow> [])
             @ concat (map (\<lambda>tag. js '' '' @ tag)
                         (case tags event of Present l \<Rightarrow> l | _ \<Rightarrow> [])))
    in sublist (js ''deep learning models'') haystack
       \<and> \<not> wholeWordOccurrence (js ''ml'') haystack
       \<and> \<not> wholeWordOccurrence (js ''ai'') haystack
       \<and> \<not> sublist (js ''machine learning'') haystack
       \<and> \<not> sublist (js ''artificial intelligence'') haystack
       \<longrightarrow> \<not> eventMatchesSearch h event [js ''ml'']
           \<and> \<not> eventMatchesSearch h event [js ''machine learning'']
           \<and> matchesSearch h (searchFor (js ''machine learning'')) event = Inr True
           \<and> matchesSearch h (searchFor (js ''ml'')) event = Inr False"
    unfolding Let_def searchableText_concat [symmetric] by blast
next
  show "expandSearchQuery h (js ''machine learning'')
       = Inr (map js [''machine learning'', ''ml'', ''ai'', ''artificial intelligence'',
                      ''deep learning''])"
    by (rule expandSearchQuery_machine_learning)
next
  show "expandSearchQuery h (js ''ml'')
       = Inr (map js [''ml'', ''machine learning'', ''ai'', ''artificial intelligence''])"
    by (rule expandSearchQuery_ml)
qed

theorem deep_learning_expansion_witness:
  "(let haystack =
          toLowerCase berkeleyHost
            ((case title (blankEvent\<lparr>description := Present (js ''deep learning models'')\<rparr>)
                of Present s \<Rightarrow> s | _ \<Rightarrow> []) @ js '' ''
             @ (case description (blankEvent\<lparr>description := Present (js ''deep learning models'')\<rparr>)
                  of Present s \<Rightarrow> s | _ \<Rightarrow> []) @ js '' ''
             @ (case organizer (blankEvent\<lparr>description := Present (js ''deep learning models'')\<rparr>)
                  of Present s \<Rightarrow> s | _ \<Rightarrow> [])
             @ concat (map (\<lambda>tag. js '' '' @ tag)
                         (case tags (blankEvent\<lparr>description := Present (js ''deep learning models'')\<rparr>)
                            of Present l \<Rightarrow> l | _ \<Rightarrow> [])))
    in (sublist (js ''deep learning models'') haystack
        \<and> \<not> wholeWordOccurrence (js ''ml'') haystack
        \<and> \<not> wholeWordOccurrence (js ''ai'') haystack
        \<and> \<not> sublist (js ''machine learning'') haystack
        \<and> \<not> sublist (js ''artificial intelligence'') haystack)
       \<and> (\<not> eventMatchesSearch berkeleyHost
               (blankEvent\<lparr>description := Present (js ''deep learning models'')\<rparr>) [js ''ml'']
           \<and> \<not> eventMatchesSearch berkeleyHost
               (blankEvent\<lparr>description := Present (js ''deep learning models'')\<rparr>)
               [js ''machine learning'']
           \<and> matchesSearch berkeleyHost (searchFor (js ''machine learning''))
               (blankEvent\<lparr>description := Present (js ''deep learning models'')\<rparr>) = Inr True
           \<and> matchesSearch berkeleyHost (searchFor (js ''ml''))
               (blankEvent\<lparr>description := Present (js ''deep learning models'')\<rparr>) = Inr False))"
proof -
  let ?E = "blankEvent\<lparr>description := Present (js ''deep learning models'')\<rparr>"
  let ?H = "toLowerCase berkeleyHost
            ((case title ?E of Present s \<Rightarrow> s | _ \<Rightarrow> []) @ js '' ''
             @ (case description ?E of Present s \<Rightarrow> s | _ \<Rightarrow> []) @ js '' ''
             @ (case organizer ?E of Present s \<Rightarrow> s | _ \<Rightarrow> [])
             @ concat (map (\<lambda>tag. js '' '' @ tag) (case tags ?E of Present l \<Rightarrow> l | _ \<Rightarrow> [])))"
  have lit: "js ''ml'' \<noteq> [] \<and> isWordChar (hd (js ''ml'')) \<and> isWordChar (last (js ''ml''))"
    "js ''ai'' \<noteq> [] \<and> isWordChar (hd (js ''ai'')) \<and> isWordChar (last (js ''ai''))"
    by code_simp+
  have "str_includes ?H (js ''deep learning models'')" by code_simp
  then have 1: "sublist (js ''deep learning models'') ?H" by (simp add: str_includes_sublist)
  have "\<not> wordBoundaryTest (js ''ml'') ?H" by code_simp
  with lit(1) have 2: "\<not> wholeWordOccurrence (js ''ml'') ?H"
    using wordBoundaryTest_whole_word [of "js ''ml''" ?H] by blast
  have "\<not> wordBoundaryTest (js ''ai'') ?H" by code_simp
  with lit(2) have 3: "\<not> wholeWordOccurrence (js ''ai'') ?H"
    using wordBoundaryTest_whole_word [of "js ''ai''" ?H] by blast
  have "\<not> str_includes ?H (js ''machine learning'')" by code_simp
  then have 4: "\<not> sublist (js ''machine learning'') ?H" by (simp add: str_includes_sublist)
  have "\<not> str_includes ?H (js ''artificial intelligence'')" by code_simp
  then have 5: "\<not> sublist (js ''artificial intelligence'') ?H" by (simp add: str_includes_sublist)
  note th = deep_learning_expansion [of berkeleyHost ?E, unfolded Let_def, THEN conjunct1]
  from th 1 2 3 4 5 have
    "\<not> eventMatchesSearch berkeleyHost ?E [js ''ml'']
     \<and> \<not> eventMatchesSearch berkeleyHost ?E [js ''machine learning'']
     \<and> matchesSearch berkeleyHost (searchFor (js ''machine learning'')) ?E = Inr True
     \<and> matchesSearch berkeleyHost (searchFor (js ''ml'')) ?E = Inr False"
    by blast
  with 1 2 3 4 5 show ?thesis unfolding Let_def by blast
qed

section \<open>Event dates read as UTC\<close>

lemma localDay_setHoursZero:
  assumes zone: "\<And>t isUTC. localTZA h t isUTC = offset"
  shows "localDay h (setHoursZero h now) = localDay h now"
  by (simp add: localDay_def setHoursZero_def localTime_def utcTime_def zone msPerDay_def)

lemma localDay_utc_midnight_west:
  assumes zone: "\<And>t isUTC. localTZA h t isUTC = offset"
    and west: "- msPerDay \<le> offset" "offset < 0"
  shows "localDay h (D * msPerDay) = D - 1"
proof -
  have "D * msPerDay + offset = msPerDay * (D - 1) + (msPerDay + offset)"
    by (simp add: algebra_simps)
  moreover have "0 \<le> msPerDay + offset" "msPerDay + offset < msPerDay"
    using west by simp_all
  ultimately have "(D * msPerDay + offset) div msPerDay = D - 1"
    by (metis int_div_pos_eq)
  then show ?thesis by (simp add: localDay_def localTime_def zone)
qed

text \<open>
  In a zone with a fixed offset west of UTC an event date parsed as midnight UTC of day
  \<open>D\<close> lies on the local day before \<open>D\<close>. Under \<open>today\<close> the event dated the local day
  of \<open>now\<close> fails and the event dated the day after passes, at every instant.
\<close>

lemma today_west_of_utc:
  assumes zone: "\<And>t isUTC. localTZA h t isUTC = offset"
    and west: "- msPerDay \<le> offset" "offset < 0"
    and parsed: "newDate h (date event) = Some (D * msPerDay)"
    and range: "dateRange filters = Today"
  shows "(D = localDay h now \<longrightarrow> \<not> matchesDate h now filters event)
       \<and> (D = localDay h now + 1 \<longrightarrow> matchesDate h now filters event)"
proof (intro conjI impI)
  assume D: "D = localDay h now"
  have "(D - 1 + 4) mod 7 \<noteq> (D + 4) mod 7" by presburger
  then have "toDateString h (Some (D * msPerDay)) \<noteq> toDateString h (Some (setHoursZero h now))"
    by (simp add: toDateString_def localDay_setHoursZero [OF zone]
             localDay_utc_midnight_west [OF zone west] D split: prod.splits)
  with parsed range show "\<not> matchesDate h now filters event"
    by (simp add: matchesDate_def)
next
  assume D: "D = localDay h now + 1"
  have "toDateString h (Some (D * msPerDay)) = toDateString h (Some (setHoursZero h now))"
    by (simp add: toDateString_def localDay_setHoursZero [OF zone]
             localDay_utc_midnight_west [OF zone west] D)
  with parsed range show "matchesDate h now filters event"
    by (simp add: matchesDate_def)
qed

text \<open>
  Under \<open>week\<close>, west of UTC, the event dated the local day of \<open>now\<close> lies before
  the local midnight that opens the window.
\<close>

lemma week_west_of_utc:
  assumes zone: "\<And>t isUTC. localTZA h t isUTC = offset"
    and west: "offset < 0"
    and parsed: "newDate h (date event) = Some (localDay h now * msPerDay)"
    and range: "dateRange filters = Week"
  shows "\<not> matchesDate h now filters event"
  using west parsed range
  by (simp add: matchesDate_def setHoursZero_def utcTime_def zone Let_def)

section \<open>Date window at concrete instants\<close>

text \<open>
  The instants used below: 1718002800000 is 2024-06-10T00:00:00 and 1718046000000 is
  2024-06-10T12:00:00 and 1718067600000 is 2024-06-10T18:00:00 in Berkeley (UTC-7);
  1717970400000 is 2024-06-10T00:00:00 in Berlin (UTC+2). 2024-06-10 is a Monday
  (weekday 1).
\<close>

text \<open>
  C4. Under \<open>today\<close> an event should pass exactly when its date is the calendar day of
  the reference instant, both read in the one local time zone. The code parses the
  date-only string as midnight UTC and prints it in local time: in Berkeley at noon of
  2024-06-10 the event dated 2024-06-10 fails and the event dated 2024-06-11 passes.
\<close>

theorem today_reads_event_date_in_utc:
  "toDateString berkeleyHost (Some 1718046000000) = DateString 1 6 10 2024
   \<and> toDateString berkeleyHost (newDate berkeleyHost (Present (js ''2024-06-10''))) = DateString 0 6 9 2024
   \<and> \<not> matchesDate berkeleyHost 1718046000000 (inRange Today)
         (blankEvent\<lparr>date := Present (js ''2024-06-10'')\<rparr>)
   \<and> matchesDate berkeleyHost 1718046000000 (inRange Today)
         (blankEvent\<lparr>date := Present (js ''2024-06-11'')\<rparr>)"
proof (intro conjI)
  show "toDateString berkeleyHost (Some 1718046000000) = DateString 1 6 10 2024"
    by code_simp
  show "toDateString berkeleyHost (newDate berkeleyHost (Present (js ''2024-06-10''))) = DateString 0 6 9 2024"
    by code_simp
  show "\<not> matchesDate berkeleyHost 1718046000000 (inRange Today)
         (blankEvent\<lparr>date := Present (js ''2024-06-10'')\<rparr>)"
    by code_simp
  show "matchesDate berkeleyHost 1718046000000 (inRange Today)
         (blankEvent\<lparr>date := Present (js ''2024-06-11'')\<rparr>)"
    by code_simp
qed

text \<open>
  C5. Under \<open>week\<close> an event should pass exactly when its date lies in
  [todayMidnight, todayMidnight + 7 days], both ends included. In the code the event's
  instant is midnight UTC of its date and the upper end is \<open>now\<close> plus seven days. In
  Berkeley at 2024-06-10T00:00:00 the event dated 2024-06-10 (the lower end) fails; at
  2024-06-10T18:00:00 the event dated 2024-06-18 passes; in Berlin at
  2024-06-10T00:00:00 the event dated 2024-06-17 (the upper end) fails.
\<close>

theorem week_window_endpoints:
  "setHoursZero berkeleyHost 1718002800000 = 1718002800000
   \<and> toDateString berkeleyHost (Some 1718002800000) = DateString 1 6 10 2024
   \<and> \<not> matchesDate berkeleyHost 1718002800000 (inRange Week)
         (blankEvent\<lparr>date := Present (js ''2024-06-10'')\<rparr>)
   \<and> toDateString berkeleyHost (Some 1718067600000) = DateString 1 6 10 2024
   \<and> matchesDate berkeleyHost 1718067600000 (inRange Week)
         (blankEvent\<lparr>date := Present (js ''2024-06-18'')\<rparr>)
   \<and> setHoursZero berlinHost 1717970400000 = 1717970400000
   \<and> toDateString berlinHost (Some 1717970400000) = DateString 1 6 10 2024
   \<and> \<not> matchesDate berlinHost 1717970400000 (inRange Week)
         (blankEvent\<lparr>date := Present (js ''2024-06-17'')\<rparr>)"
proof (intro conjI)
  show "setHoursZero berkeleyHost 1718002800000 = 1718002800000"
    by code_simp
  show "toDateString berkeleyHost (Some 1718002800000) = DateString 1 6 10 2024"
    by code_simp
  show "\<not> matchesDate berkeleyHost 1718002800000 (inRange Week)
         (blankEvent\<lparr>date := Present (js ''2024-06-10'')\<rparr>)"
    by code_simp
  show "toDateString berkeleyHost (Some 1718067600000) = DateString 1 6 10 2024"
    by code_simp
  show "matchesDate berkeleyHost 1718067600000 (inRange Week)
         (blankEvent\<lparr>date := Present (js ''2024-06-18'')\<rparr>)"
    by code_simp
  show "setHoursZero berlinHost 1717970400000 = 1717970400000"
    by code_simp
  show "toDateString berlinHost (Some 1717970400000) = DateString 1 6 10 2024"
    by code_simp
  show "\<not> matchesDate berlinHost 1717970400000 (inRange Week)
         (blankEvent\<lparr>date := Present (js ''2024-06-17'')\<rparr>)"
    by code_simp
qed

text \<open>
  In Berkeley at 2024-06-10T00:00:00 the two dates of the specification's example come
  out as it says: 2024-06-17 passes and 2024-06-18 fails.
\<close>

lemma week_example_in_berkeley:
  "matchesDate berkeleyHost 1718002800000 (inRange Week)
     (blankEvent\<lparr>date := Present (js ''2024-06-17'')\<rparr>)
   \<and> \<not> matchesDate berkeleyHost 1718002800000 (inRange Week)
         (blankEvent\<lparr>date := Present (js ''2024-06-18'')\<rparr>)"
  by code_simp

section \<open>Properties of the synonym expansion\<close>

lemma set_setAddAll: "set (setAddAll acc xs) = set acc \<union> set xs"
  by (induction xs arbitrary: acc) auto

lemma distinct_setAddAll: "distinct acc \<Longrightarrow> distinct (setAddAll acc xs)"
  by (induction xs arbitrary: acc) auto

lemma hd_setAddAll: "acc \<noteq> [] \<Longrightarrow> hd (setAddAll acc xs) = hd acc"
  by (induction xs arbitrary: acc) auto

lemma uniqueTerms_Cons:
  "hd (uniqueTerms (x # xs)) = x \<and> distinct (uniqueTerms (x # xs))
   \<and> set (uniqueTerms (x # xs)) = insert x (set xs)"
  by (simp add: uniqueTerms_def hd_setAddAll distinct_setAddAll set_setAddAll)

lemma pushMatching_append:
  "\<exists>pushed. pushMatching ws n vocabulary terms = terms @ pushed
     \<and> set pushed = (\<Union>(key, synonyms) \<in> {entry \<in> set vocabulary. fst entry \<in> set ws \<or> fst entry = n}.
                       set synonyms)"
proof (induction vocabulary arbitrary: terms)
  case Nil
  show ?case by simp
next
  case (Cons entry vocabulary)
  obtain key synonyms where entry: "entry = (key, synonyms)" by (cases entry)
  let ?terms' = "if key \<in> set ws \<or> key = n then terms @ synonyms else terms"
  from Cons [of ?terms'] obtain pushed where
    p: "pushMatching ws n vocabulary ?terms' = ?terms' @ pushed"
    and sp: "set pushed = (\<Union>(key, synonyms) \<in> {entry \<in> set vocabulary. fst entry \<in> set ws \<or> fst entry = n}.
                       set synonyms)"
    by blast
  show ?case
  proof (cases "key \<in> set ws \<or> key = n")
    case True
    with p entry have "pushMatching ws n (entry # vocabulary) terms = terms @ (synonyms @ pushed)"
      by simp
    moreover from True sp entry have "set (synonyms @ pushed)
        = (\<Union>(key, synonyms) \<in> {e \<in> set (entry # vocabulary). fst e \<in> set ws \<or> fst e = n}. set synonyms)"
      by auto
    ultimately show ?thesis by blast
  next
    case False
    with p entry have "pushMatching ws n (entry # vocabulary) terms = terms @ pushed"
      by simp
    moreover from False sp entry have "set pushed
        = (\<Union>(key, synonyms) \<in> {e \<in> set (entry # vocabulary). fst e \<in> set ws \<or> fst e = n}. set synonyms)"
      by auto
    ultimately show ?thesis by blast
  qed
qed

text \<open>
  Whenever the property read does not reach \<open>Object.prototype\<close>, the expansion returns a
  list without duplicates that starts with the normalized query and holds, besides it,
  exactly the related terms of the keys that are the query or one of its words.
\<close>

lemma expandSearchQueryIn_terms:
  assumes "getProperty vocabulary (trim (toLowerCase h query)) \<noteq> Inherited"
  shows "\<exists>terms. expandSearchQueryIn vocabulary h query = Inr terms
           \<and> hd terms = trim (toLowerCase h query) \<and> distinct terms
           \<and> set terms = insert (trim (toLowerCase h query))
                             (relatedTerms vocabulary (trim (toLowerCase h query)))"
proof -
  let ?n = "trim (toLowerCase h query)"
  let ?R = "relatedTerms vocabulary ?n"
  have push: "\<exists>rest. pushMatching (split_ws ?n) ?n vocabulary (?n # extra) = ?n # rest
                 \<and> set rest = set extra \<union> ?R" for extra
  proof -
    from pushMatching_append [of "split_ws ?n" ?n vocabulary "?n # extra"]
    obtain pushed where "pushMatching (split_ws ?n) ?n vocabulary (?n # extra) = (?n # extra) @ pushed"
      and "set pushed = ?R"
      unfolding relatedTerms_def by blast
    then have "pushMatching (split_ws ?n) ?n vocabulary (?n # extra) = ?n # (extra @ pushed)
               \<and> set (extra @ pushed) = set extra \<union> ?R" by simp
    then show ?thesis by blast
  qed
  show ?thesis
  proof (cases "map_of vocabulary ?n")
    case None
    with assms have g: "getProperty vocabulary ?n = Missing"
      by (simp add: getProperty_def split: if_splits)
    from push [of "[]"] obtain rest where
      r: "pushMatching (split_ws ?n) ?n vocabulary [?n] = ?n # rest" and sr: "set rest = ?R"
      by auto
    from g r have "expandSearchQueryIn vocabulary h query = Inr (uniqueTerms (?n # rest))"
      by (simp add: expandSearchQueryIn_def Let_def)
    with uniqueTerms_Cons [of ?n rest] sr show ?thesis by simp
  next
    case (Some synonyms)
    then have g: "getProperty vocabulary ?n = Own synonyms"
      by (simp add: getProperty_def)
    from Some have "(?n, synonyms) \<in> set vocabulary" by (rule map_of_SomeD)
    then have sub: "set synonyms \<subseteq> ?R"
      unfolding relatedTerms_def by fastforce
    from push [of synonyms] obtain rest where
      r: "pushMatching (split_ws ?n) ?n vocabulary (?n # synonyms) = ?n # rest"
      and sr: "set rest = set synonyms \<union> ?R"
      by auto
    from sub sr have sr': "set rest = ?R" by auto
    from g r have "expandSearchQueryIn vocabulary h query = Inr (uniqueTerms (?n # rest))"
      by (simp add: expandSearchQueryIn_def Let_def)
    with uniqueTerms_Cons [of ?n rest] sr' show ?thesis by simp
  qed
qed

lemma expandSearchQueryIn_raises:
  "expandSearchQueryIn vocabulary h query = Inl TypeError
     \<longleftrightarrow> getProperty vocabulary (trim (toLowerCase h query)) = Inherited"
proof (cases "getProperty vocabulary (trim (toLowerCase h query)) = Inherited")
  case True
  then show ?thesis by (simp add: expandSearchQueryIn_def Let_def)
next
  case False
  from expandSearchQueryIn_terms [OF False] False show ?thesis by auto
qed

text \<open>A key that is only a part of a query word stays out: "art" and the query "smart".\<close>

lemma expandSearchQuery_smart: "expandSearchQuery h (js ''smart'') = Inr [js ''smart'']"
  by code_simp

text \<open>
  C6. For every query string the expansion should return the normalized query and the
  related terms of the triggered keys, without duplicates. For the query "constructor"
  (and "__proto__") the read \<open>SEARCH_SYNONYMS[normalized]\<close> finds the property inherited
  from \<open>Object.prototype\<close>, which is truthy and not iterable, and the spread raises.
\<close>

theorem expandSearchQuery_inherited_key:
  "expandSearchQuery h (js ''constructor'') = Inl TypeError
   \<and> expandSearchQuery h (js ''__proto__'') = Inl TypeError
   \<and> expandSearchQuery h (js '' Constructor '') = Inl TypeError"
  by code_simp

section \<open>Properties of the filter pipeline\<close>

lemma matchesSearch_empty:
  "trim (searchQuery filters) = [] \<Longrightarrow> matchesSearch h filters event = Inr True"
  by (simp add: matchesSearch_def)

lemma matchesSearch_raises:
  "matchesSearch h filters event = Inl TypeError
     \<longleftrightarrow> trim (searchQuery filters) \<noteq> []
         \<and> getProperty SEARCH_SYNONYMS (trim (toLowerCase h (trim (searchQuery filters)))) = Inherited"
proof (cases "trim (searchQuery filters) = []")
  case True
  then show ?thesis by (simp add: matchesSearch_def)
next
  case False
  have "matchesSearch h filters event = Inl TypeError
          \<longleftrightarrow> expandSearchQuery h (trim (searchQuery filters)) = Inl TypeError"
    using False by (cases "expandSearchQuery h (trim (searchQuery filters))")
      (auto simp: matchesSearch_def Let_def intro: error.exhaust)
  with False show ?thesis
    by (simp add: expandSearchQuery_def expandSearchQueryIn_raises)
qed

lemma isHomeGame_raises:
  "isHomeGame h event = Inl TypeError
     \<longleftrightarrow> isSportsEvent h event \<and> (location event = Null \<or> location event = Undefined)"
  by (cases "location event") (auto simp: isHomeGame_def)

lemma keepEvent_raises:
  "keepEvent h now filters event = Inl TypeError
     \<longleftrightarrow> matchesSearch h filters event = Inl TypeError \<or> isHomeGame h event = Inl TypeError"
proof (cases "matchesSearch h filters event")
  case (Inl e)
  then show ?thesis by (cases e) (simp add: keepEvent_def Let_def)
next
  case (Inr s)
  then show ?thesis
    by (cases "isHomeGame h event") (auto simp: keepEvent_def Let_def intro: error.exhaust)
qed

lemma keepEvent_true:
  "keepEvent h now filters event = Inr True
     \<longleftrightarrow> matchesCategory h filters event \<and> matchesDate h now filters event
         \<and> matchesSearch h filters event = Inr True \<and> isHomeGame h event = Inr True"
  by (cases "matchesSearch h filters event"; cases "isHomeGame h event")
     (auto simp: keepEvent_def Let_def)

text \<open>
  The pipeline as a whole: when no evaluation raises, the result is the input batch
  filtered by the conjunction of the four predicates, in the input's order; when an
  evaluation raises on some event, the whole call raises.
\<close>

lemma filteredEvents_as_filter:
  "filteredEvents h now allEvents filters =
     (if \<exists>event\<in>set allEvents.
           matchesSearch h filters event = Inl TypeError \<or> isHomeGame h event = Inl TypeError
      then Inl TypeError
      else Inr (filter (\<lambda>event. matchesCategory h filters event \<and> matchesDate h now filters event
                                \<and> matchesSearch h filters event = Inr True
                                \<and> isHomeGame h event = Inr True) allEvents))"
proof (cases "\<exists>event\<in>set allEvents. keepEvent h now filters event = Inl TypeError")
  case True
  then have "filteredEvents h now allEvents filters = Inl TypeError"
    unfolding filteredEvents_def by (rule filterE_raise)
  with True show ?thesis by (simp add: keepEvent_raises)
next
  case False
  then have "\<forall>event\<in>set allEvents. keepEvent h now filters event \<noteq> Inl TypeError" by simp
  then have "filteredEvents h now allEvents filters
               = Inr (filter (\<lambda>event. keepEvent h now filters event = Inr True) allEvents)"
    unfolding filteredEvents_def by (rule filterE_no_raise)
  with False show ?thesis by (simp add: keepEvent_raises keepEvent_true)
qed

lemma filteredEvents_order:
  "filteredEvents h now allEvents filters = Inr shown \<Longrightarrow> subseq shown allEvents"
  by (auto simp: filteredEvents_as_filter split: if_splits)

text \<open>
  C1. For every batch, filter state and reference instant the pipeline should return
  the events for which all four predicates hold, in the input's order. With the search
  text "constructor" the synonym expansion raises (see C6), and so does the pipeline on
  every batch that is not empty, whatever the events are.
\<close>

theorem filteredEvents_inherited_key:
  "filteredEvents h now (event # rest) (filters\<lparr>searchQuery := (js ''constructor'')\<rparr>) = Inl TypeError"
proof -
  have "trim (js ''constructor'') \<noteq> [] \<and> expandSearchQuery h (trim (js ''constructor'')) = Inl TypeError"
    by code_simp
  then have "matchesSearch h (filters\<lparr>searchQuery := (js ''constructor'')\<rparr>) event = Inl TypeError"
    by (simp add: matchesSearch_def Let_def)
  then show ?thesis by (simp add: filteredEvents_as_filter)
qed

text \<open>
  C2. No exception should leave the pipeline, an absent property counting as empty.
  The title, description, organizer, tags and date of an event may be absent, but a
  sports-tagged event whose location is \<open>null\<close> or \<open>undefined\<close> makes
  \<open>event.location.toLowerCase()\<close> raise, and the whole filter pass with it, wherever the
  event stands in the batch and whatever the filter state is.
\<close>

theorem filteredEvents_missing_location:
  "filteredEvents h now (before @ event\<lparr>tags := Present [js ''Sports''], location := Null\<rparr> # after) filters
     = Inl TypeError
   \<and> filteredEvents h now (before @ event\<lparr>tags := Present [js ''Sports''], location := Undefined\<rparr> # after)
       filters
     = Inl TypeError"
proof -
  have sport: "str_includes (toLowerCase h (js ''Sports'')) (js ''sport'')"
    by code_simp
  have "isHomeGame h (event\<lparr>tags := Present [js ''Sports''], location := l\<rparr>) = Inl TypeError"
    if "l = Null \<or> l = Undefined" for l
    using that sport by (auto simp: isHomeGame_raises isSportsEvent_def)
  then show ?thesis by (simp add: filteredEvents_as_filter)
qed

text \<open>
  The other absent properties raise nothing: an event with no property at all is
  filtered like any other.
\<close>

lemma filteredEvents_absent_properties:
  "filteredEvents berkeleyHost 1718046000000
     [\<lparr> id_ = Undefined, title = Undefined, organizer = Null, date = Undefined, time = Null,
        location = Null, description = Undefined, tags = Undefined, url = Null \<rparr>]
     (\<lparr> dateRange = Week, category = js ''Arts'', searchQuery = js ''music'' \<rparr>)
   = Inr []"
  by code_simp

text \<open>
  The end-to-end scenario of the specification: a sports event at Stanford, an academic
  event in Berkeley titled "AI Policy Lecture" and an arts event in Berkeley, searched
  for "ai" with no category or date restriction. Only the second event is returned.
\<close>

lemma filteredEvents_scenario:
  "filteredEvents berkeleyHost 1718046000000
     [blankEvent\<lparr>id_ := Present (js ''1''), title := Present (js ''Big Game''), tags := Present [js ''Sports''],
                  location := Present (js ''Stanford, CA''), date := Present (js ''2024-06-05'')\<rparr>,
      blankEvent\<lparr>id_ := Present (js ''2''), title := Present (js ''AI Policy Lecture''),
                  tags := Present [js ''Academic''], location := Present (js ''Berkeley''),
                  date := Present (js ''2024-06-11'')\<rparr>,
      blankEvent\<lparr>id_ := Present (js ''3''), title := Present (js ''Gallery Opening''), tags := Present [js ''Arts''],
                  location := Present (js ''Berkeley''), date := Present (js ''2024-06-09'')\<rparr>]
     (searchFor (js ''ai''))
   = Inr [blankEvent\<lparr>id_ := Present (js ''2''), title := Present (js ''AI Policy Lecture''),
                      tags := Present [js ''Academic''], location := Present (js ''Berkeley''),
                      date := Present (js ''2024-06-11'')\<rparr>]"
  by code_simp

end
